theory Spec2Isabelle
  imports Complex_Main "HOL-Library.Word"
begin

section \<open>JavaScript values used by the map screen\<close>

text \<open>
  A JavaScript string is a sequence of 16-bit code units. A JavaScript number is only
  stored and handed on by the screen (coordinates, ratings, zoom deltas): the code never
  computes with one, so numbers are modelled as reals.
\<close>

type_synonym jschar = "16 word"
type_synonym jsstring = "jschar list"
type_synonym number = real

definition ascii :: "string \<Rightarrow> jsstring" where
  "ascii s = map (\<lambda>c. of_char c) s"

text \<open>
  \<open>String.prototype.trim\<close> removes the ECMAScript WhiteSpace and LineTerminator code
  units from both ends of a string.
\<close>

definition isWhiteSpace :: "jschar \<Rightarrow> bool" where
  "isWhiteSpace c \<longleftrightarrow>
     c \<in> {0x0009, 0x000A, 0x000B, 0x000C, 0x000D, 0x0020, 0x00A0, 0x1680,
          0x2028, 0x2029, 0x202F, 0x205F, 0x3000, 0xFEFF}
     \<or> (0x2000 \<le> c \<and> c \<le> 0x200A)"

definition trim :: "jsstring \<Rightarrow> jsstring" where
  "trim s = rev (dropWhile isWhiteSpace (rev (dropWhile isWhiteSpace s)))"

text \<open>
  \<open>s.split(sep)\<close> for a separator of one code unit: the pieces between the separators,
  empty pieces kept, so the empty string splits into one empty piece.
\<close>

fun split :: "jschar \<Rightarrow> jsstring \<Rightarrow> jsstring list" where
  "split sep [] = [[]]"
| "split sep (c # cs) =
     (if c = sep then [] # split sep cs
      else (case split sep cs of
              [] \<Rightarrow> [[c]]
            | w # ws \<Rightarrow> (c # w) # ws))"

text \<open>\<open>ws.join(sep)\<close> for a separator of one code unit.\<close>

fun join :: "jschar \<Rightarrow> jsstring list \<Rightarrow> jsstring" where
  "join sep [] = []"
| "join sep [w] = w"
| "join sep (w # v # ws) = w @ sep # join sep (v # ws)"

text \<open>
  \<open>a || b\<close> on an optional string: \<open>undefined\<close> and the empty string are falsy.
\<close>

definition js_or :: "jsstring option \<Rightarrow> jsstring \<Rightarrow> jsstring" where
  "js_or a b = (case a of None \<Rightarrow> b | Some x \<Rightarrow> if x = [] then b else x)"

definition space :: jschar where
  "space = 0x0020"

section \<open>Data model\<close>

record OpeningHours =
  open_now :: bool
  weekday_text :: "jsstring list"

text \<open>
  \<open>interface RecyclingCenter\<close>. The fields \<open>id\<close>, \<open>name\<close>, \<open>latitude\<close> and
  \<open>longitude\<close> carry the prefix \<open>center_\<close>: \<open>id\<close> is a constant of HOL and a region has
  a latitude and a longitude of its own.
\<close>

record RecyclingCenter =
  center_id :: jsstring
  center_name :: jsstring
  center_latitude :: number
  center_longitude :: number
  address :: "jsstring option"
  openingHours :: "OpeningHours option"
  rating :: "number option"
  description :: "jsstring option"

record Region =
  latitude :: number
  longitude :: number
  latitudeDelta :: number
  longitudeDelta :: number

text \<open>
  One result of the nearby-search response (\<open>place: any\<close> in the source; the fields the
  code reads: \<open>place_id\<close>, \<open>name\<close>, \<open>geometry.location.lat\<close>, \<open>geometry.location.lng\<close>
  and the optional \<open>vicinity\<close>).
\<close>

record Place =
  place_id :: jsstring
  place_name :: jsstring
  lat :: number
  lng :: number
  vicinity :: "jsstring option"

text \<open>
  The \<open>result\<close> of a details response: \<open>opening_hours\<close>, \<open>rating\<close> and \<open>reviews\<close> are
  optional; of a review the code reads the \<open>text\<close> only.
\<close>

record PlaceDetails =
  opening_hours :: "OpeningHours option"
  details_rating :: "number option"
  reviews :: "jsstring list option"

text \<open>
  An awaited HTTP call either resolves with the data the code reads, or an exception is
  thrown inside the \<open>try\<close> block (a network failure, or a response body without the
  fields read).
\<close>

datatype 'a response = Resolved 'a | Rejected

text \<open>
  The two HTTP calls with the parameters the code chooses: latitude and longitude of
  \<open>location\<close>, \<open>radius\<close> and \<open>keyword\<close> of the nearby search, \<open>place_id\<close> of the
  details call. The API key is the same in every call.
\<close>

datatype request =
    NearbySearchGet number number nat jsstring
  | PlaceDetailsGet jsstring

text \<open>
  Who waits for a call to \<open>fetchRecyclingCenters\<close>: only \<open>handleItemNameChange\<close> awaits
  it, and clears \<open>isInitialRender.current\<close> once it has returned.
\<close>

datatype awaiter = NotAwaited | AwaitedByHandleItemNameChange

text \<open>
  The effects of the component's code, in program order: the state setters, the write to
  the \<open>isInitialRender\<close> ref, the console, and the calls that start asynchronous work.
  \<open>UpdateRecyclingCenters\<close> is the functional update
  \<open>setRecyclingCenters(prevCenters => prevCenters.map(...))\<close> of \<open>fetchPlaceDetails\<close>.
\<close>

datatype action =
    SetRegion Region
  | SetRecyclingCenters "RecyclingCenter list"
  | UpdateRecyclingCenters jsstring PlaceDetails
  | SetSelectedCenter RecyclingCenter
  | SetModalVisible bool
  | SetSearchModalVisible bool
  | SetSearchKeyword jsstring
  | SetCurrentSearchKeyword jsstring
  | SetLoading bool
  | SetIsExpanded bool
  | SetPrevItemName jsstring
  | ClearInitialRender
  | ConsoleLog
  | ConsoleError
  | RequestLocation
  | AxiosGet request awaiter

text \<open>
  The state of the mounted screen: the route parameter \<open>itemName\<close> of the last render,
  the \<open>useState\<close> cells, the \<open>isInitialRender\<close> ref, and the asynchronous work under
  way (the location request of the mount effect and the HTTP calls not yet settled).
  The filter dialog, which has no logic, and the deep link of \<open>openMaps\<close> are left out.
\<close>

record state =
  itemName :: jsstring
  region :: "Region option"
  recyclingCenters :: "RecyclingCenter list"
  selectedCenter :: "RecyclingCenter option"
  modalVisible :: bool
  searchModalVisible :: bool
  searchKeyword :: jsstring
  currentSearchKeyword :: jsstring
  loading :: bool
  isExpanded :: bool
  prevItemName :: jsstring
  isInitialRender :: bool
  locationPending :: bool
  inflight :: "(request \<times> awaiter) list"

definition initial :: "jsstring \<Rightarrow> state" where
  "initial name =
     \<lparr> itemName = name, region = None, recyclingCenters = [], selectedCenter = None,
       modalVisible = False, searchModalVisible = False, searchKeyword = [],
       currentSearchKeyword = [], loading = True, isExpanded = False,
       prevItemName = name, isInitialRender = True, locationPending = False,
       inflight = [] \<rparr>"

section \<open>The places client\<close>

definition defaultKeyword :: jsstring where
  "defaultKeyword =
     ascii ''recycling center|waste management|recyclable materials|recycle center''"

definition searchQuery :: "jsstring \<Rightarrow> jsstring" where
  "searchQuery keyword =
     (let trimmedKeyword = trim keyword
      in if trimmedKeyword \<noteq> [] then trimmedKeyword @ ascii '' recycling''
         else defaultKeyword)"

definition fetchRecyclingCenters ::
    "number \<Rightarrow> number \<Rightarrow> jsstring \<Rightarrow> awaiter \<Rightarrow> action list" where
  "fetchRecyclingCenters lt lg keyword w =
     [SetLoading True, ConsoleLog,
      AxiosGet (NearbySearchGet lt lg 80467 (searchQuery keyword)) w]"

definition toRecyclingCenter :: "Place \<Rightarrow> RecyclingCenter" where
  "toRecyclingCenter place =
     \<lparr> center_id = place_id place, center_name = place_name place,
       center_latitude = lat place, center_longitude = lng place,
       address = Some (js_or (vicinity place) (ascii ''Address not available'')),
       openingHours = None, rating = None, description = None \<rparr>"

definition fetchPlaceDetails :: "jsstring \<Rightarrow> action list" where
  "fetchPlaceDetails placeId = [AxiosGet (PlaceDetailsGet placeId) NotAwaited]"

text \<open>What \<open>fetchRecyclingCenters\<close> does once the awaited nearby search has settled.\<close>

definition fetchRecyclingCenters_settled :: "Place list response \<Rightarrow> action list" where
  "fetchRecyclingCenters_settled resp =
     (case resp of
        Resolved results \<Rightarrow>
          (let centers = map toRecyclingCenter results
           in SetRecyclingCenters centers
              # concat (map (\<lambda>center. fetchPlaceDetails (center_id center)) centers))
      | Rejected \<Rightarrow> [ConsoleError])
     @ [SetLoading False]"

definition topReview :: "PlaceDetails \<Rightarrow> jsstring" where
  "topReview placeDetails =
     (case reviews placeDetails of
        Some (review # _) \<Rightarrow> review
      | _ \<Rightarrow> ascii ''No reviews available.'')"

definition mergePlaceDetails ::
    "jsstring \<Rightarrow> PlaceDetails \<Rightarrow> RecyclingCenter list \<Rightarrow> RecyclingCenter list" where
  "mergePlaceDetails placeId placeDetails prevCenters =
     map (\<lambda>center.
            if center_id center = placeId
            then center\<lparr> openingHours := opening_hours placeDetails,
                         rating := details_rating placeDetails,
                         description :=
                           Some (js_or (Some (topReview placeDetails))
                                   (ascii ''No reviews available.'')) \<rparr>
            else center)
       prevCenters"

text \<open>What \<open>fetchPlaceDetails\<close> does once the awaited details call has settled.\<close>

definition fetchPlaceDetails_settled ::
    "jsstring \<Rightarrow> PlaceDetails response \<Rightarrow> action list" where
  "fetchPlaceDetails_settled placeId resp =
     (case resp of
        Resolved placeDetails \<Rightarrow> [UpdateRecyclingCenters placeId placeDetails]
      | Rejected \<Rightarrow> [ConsoleError])"

section \<open>Executing effects\<close>

fun exec :: "action \<Rightarrow> state \<Rightarrow> state" where
  "exec (SetRegion r) s = s\<lparr>region := Some r\<rparr>"
| "exec (SetRecyclingCenters cs) s = s\<lparr>recyclingCenters := cs\<rparr>"
| "exec (UpdateRecyclingCenters placeId d) s =
     s\<lparr>recyclingCenters := mergePlaceDetails placeId d (recyclingCenters s)\<rparr>"
| "exec (SetSelectedCenter c) s = s\<lparr>selectedCenter := Some c\<rparr>"
| "exec (SetModalVisible b) s = s\<lparr>modalVisible := b\<rparr>"
| "exec (SetSearchModalVisible b) s = s\<lparr>searchModalVisible := b\<rparr>"
| "exec (SetSearchKeyword k) s = s\<lparr>searchKeyword := k\<rparr>"
| "exec (SetCurrentSearchKeyword k) s = s\<lparr>currentSearchKeyword := k\<rparr>"
| "exec (SetLoading b) s = s\<lparr>loading := b\<rparr>"
| "exec (SetIsExpanded b) s = s\<lparr>isExpanded := b\<rparr>"
| "exec (SetPrevItemName k) s = s\<lparr>prevItemName := k\<rparr>"
| "exec ClearInitialRender s = s\<lparr>isInitialRender := False\<rparr>"
| "exec ConsoleLog s = s"
| "exec ConsoleError s = s"
| "exec RequestLocation s = s\<lparr>locationPending := True\<rparr>"
| "exec (AxiosGet rq w) s = s\<lparr>inflight := inflight s @ [(rq, w)]\<rparr>"

fun exec_all :: "action list \<Rightarrow> state \<Rightarrow> state" where
  "exec_all [] s = s"
| "exec_all (a # as) s = exec_all as (exec a s)"

section \<open>The search controller: effects and handlers\<close>

text \<open>
  Every function below reads the state of the render that created it (its closure) and
  yields its effects in program order; the setters take effect with the next render.
\<close>

definition handleItemNameChange :: "state \<Rightarrow> action list" where
  "handleItemNameChange s =
     (if itemName s \<noteq> [] \<and> (itemName s \<noteq> prevItemName s \<or> isInitialRender s)
      then [ConsoleLog, SetSearchKeyword (itemName s),
            SetCurrentSearchKeyword (itemName s), SetPrevItemName (itemName s)]
           @ (case region s of
                Some r \<Rightarrow>
                  fetchRecyclingCenters (latitude r) (longitude r) (itemName s)
                    AwaitedByHandleItemNameChange
              | None \<Rightarrow> [ClearInitialRender])
      else [])"

definition fetchLocationAndCenters :: "action list" where
  "fetchLocationAndCenters = [RequestLocation]"

definition fetchLocationAndCenters_denied :: "action list" where
  "fetchLocationAndCenters_denied = [ConsoleLog]"

definition fetchLocationAndCenters_located :: "number \<Rightarrow> number \<Rightarrow> action list" where
  "fetchLocationAndCenters_located lt lg =
     SetRegion \<lparr> latitude = lt, longitude = lg,
                 latitudeDelta = 0.1, longitudeDelta = 0.1 \<rparr>
     # fetchRecyclingCenters lt lg [] NotAwaited"

definition searchEffect :: "state \<Rightarrow> action list" where
  "searchEffect s =
     (case region s of
        Some r \<Rightarrow>
          if currentSearchKeyword s \<noteq> []
          then fetchRecyclingCenters (latitude r) (longitude r) (currentSearchKeyword s)
                 NotAwaited
          else []
      | None \<Rightarrow> [])"

definition itemNameEffect :: "state \<Rightarrow> action list" where
  "itemNameEffect s =
     (if itemName s \<noteq> [] \<and> itemName s \<noteq> prevItemName s
      then [SetSearchKeyword (itemName s), SetCurrentSearchKeyword (itemName s),
            SetPrevItemName (itemName s)]
      else [])"

definition handleSearch :: "state \<Rightarrow> action list" where
  "handleSearch s =
     (case region s of
        Some r \<Rightarrow>
          SetCurrentSearchKeyword (searchKeyword s)
          # fetchRecyclingCenters (latitude r) (longitude r) (searchKeyword s) NotAwaited
      | None \<Rightarrow> [])
     @ [SetSearchModalVisible False]"

definition clearSearch :: "state \<Rightarrow> action list" where
  "clearSearch s =
     [SetSearchKeyword [], SetCurrentSearchKeyword [], SetPrevItemName []]
     @ (case region s of
          Some r \<Rightarrow> fetchRecyclingCenters (latitude r) (longitude r) [] NotAwaited
        | None \<Rightarrow> [])"

definition handleCloseSearchModal :: "state \<Rightarrow> action list" where
  "handleCloseSearchModal s =
     (if searchKeyword s = [] then clearSearch s else [])
     @ [SetSearchModalVisible False]"

definition handleMarkerPress :: "RecyclingCenter \<Rightarrow> action list" where
  "handleMarkerPress center =
     [SetSelectedCenter center, SetModalVisible True, SetIsExpanded False]"

definition toggleDescription :: "state \<Rightarrow> action list" where
  "toggleDescription s = [SetIsExpanded (\<not> isExpanded s)]"

section \<open>The detail modal\<close>

text \<open>The text of the description shown by the detail modal.\<close>

definition descriptionText :: "bool \<Rightarrow> jsstring option \<Rightarrow> jsstring option" where
  "descriptionText expanded desc =
     (if expanded then desc
      else (case desc of
              None \<Rightarrow> None
            | Some d \<Rightarrow>
                if d \<noteq> [] \<and> length (split space d) > 20
                then Some (join space (take 20 (split space d)) @ ascii ''...'')
                else Some d))"

definition renderedDescription :: "state \<Rightarrow> jsstring option" where
  "renderedDescription s =
     (case selectedCenter s of
        None \<Rightarrow> None
      | Some c \<Rightarrow> descriptionText (isExpanded s) (description c))"

section \<open>Rendering and events\<close>

text \<open>
  An effect runs after the first render, and after a later render when one of its
  dependencies differs from the render before. \<open>fetchRecyclingCenters\<close> is memoised on
  the API key, which never changes, so it never counts as a changed dependency. The
  region is an object, compared by identity: it is set once, from \<open>null\<close>, by the mount
  effect, so it has changed exactly when its value has.
\<close>

definition changed :: "state option \<Rightarrow> state \<Rightarrow> (state \<Rightarrow> 'a) \<Rightarrow> bool" where
  "changed prev cur dep = (case prev of None \<Rightarrow> True | Some p \<Rightarrow> dep p \<noteq> dep cur)"

definition run_effects :: "state option \<Rightarrow> state \<Rightarrow> action list" where
  "run_effects prev cur =
     (if changed prev cur itemName \<or> changed prev cur region
      then handleItemNameChange cur else [])
     @ (if prev = None then fetchLocationAndCenters else [])
     @ (if changed prev cur region \<or> changed prev cur currentSearchKeyword
        then searchEffect cur else [])
     @ (if changed prev cur itemName then itemNameEffect cur else [])"

text \<open>
  Renders follow one another until a render's effects do nothing; \<open>None\<close> when the given
  number of renders does not get there. Three renders always do (\<open>step_returns\<close> and
  \<open>mount_returns\<close> below): the effects set neither the route parameter nor the region,
  and the effect on the committed keyword sets no keyword.
\<close>

fun rerender :: "nat \<Rightarrow> state option \<Rightarrow> state \<Rightarrow> (state \<times> action list) option" where
  "rerender 0 prev cur = None"
| "rerender (Suc fuel) prev cur =
     (let acts = run_effects prev cur
      in if acts = [] then Some (cur, [])
         else (case rerender fuel (Some cur) (exec_all acts cur) of
                 None \<Rightarrow> None
               | Some (s, tr) \<Rightarrow> Some (s, acts @ tr)))"

definition mount :: "jsstring \<Rightarrow> (state \<times> action list) option" where
  "mount name = rerender 3 None (initial name)"

datatype event =
    Navigate jsstring
  | PermissionDenied
  | LocationAcquired number number
  | NearbySettled nat "Place list response"
  | DetailsSettled nat "PlaceDetails response"
  | ChangeText jsstring
  | PressSearchIcon
  | PressSearch
  | PressClear
  | PressClose
  | PressMarker RecyclingCenter
  | PressToggle

fun remove_nth :: "nat \<Rightarrow> 'a list \<Rightarrow> 'a list" where
  "remove_nth i xs = take i xs @ drop (Suc i) xs"

text \<open>
  What an event runs: the state the handler starts from (the route parameter replaced,
  the settled call taken out of the calls under way) and the handler's effects. A
  settlement of a call that is not under way does not occur; it is modelled as nothing.
\<close>

fun dispatch :: "event \<Rightarrow> state \<Rightarrow> state \<times> action list" where
  "dispatch (Navigate name) s = (s\<lparr>itemName := name\<rparr>, [])"
| "dispatch PermissionDenied s =
     (if locationPending s
      then (s\<lparr>locationPending := False\<rparr>, fetchLocationAndCenters_denied)
      else (s, []))"
| "dispatch (LocationAcquired lt lg) s =
     (if locationPending s
      then (s\<lparr>locationPending := False\<rparr>, fetchLocationAndCenters_located lt lg)
      else (s, []))"
| "dispatch (NearbySettled i resp) s =
     (if i < length (inflight s)
      then (case inflight s ! i of
              (NearbySearchGet lt lg rad kw, w) \<Rightarrow>
                (s\<lparr>inflight := remove_nth i (inflight s)\<rparr>,
                 fetchRecyclingCenters_settled resp
                 @ (case w of
                      AwaitedByHandleItemNameChange \<Rightarrow> [ClearInitialRender]
                    | NotAwaited \<Rightarrow> []))
            | (PlaceDetailsGet placeId, w) \<Rightarrow> (s, []))
      else (s, []))"
| "dispatch (DetailsSettled i resp) s =
     (if i < length (inflight s)
      then (case inflight s ! i of
              (PlaceDetailsGet placeId, w) \<Rightarrow>
                (s\<lparr>inflight := remove_nth i (inflight s)\<rparr>,
                 fetchPlaceDetails_settled placeId resp)
            | (NearbySearchGet lt lg rad kw, w) \<Rightarrow> (s, []))
      else (s, []))"
| "dispatch (ChangeText text) s = (s, [SetSearchKeyword text])"
| "dispatch PressSearchIcon s = (s, [SetSearchModalVisible True])"
| "dispatch PressSearch s = (s, handleSearch s)"
| "dispatch PressClear s = (s, clearSearch s)"
| "dispatch PressClose s = (s, handleCloseSearchModal s)"
| "dispatch (PressMarker center) s = (s, handleMarkerPress center)"
| "dispatch PressToggle s = (s, toggleDescription s)"

text \<open>
  One event: the handler's effects are applied, then the screen renders until it is
  quiet. The result is the state reached and every effect performed, in order.
\<close>

definition step :: "event \<Rightarrow> state \<Rightarrow> (state \<times> action list) option" where
  "step e s =
     (case dispatch e s of
        (s0, acts) \<Rightarrow>
          (case rerender 3 (Some s) (exec_all acts s0) of
             None \<Rightarrow> None
           | Some (s', tr) \<Rightarrow> Some (s', acts @ tr)))"



text \<open>The nearby searches among the effects performed, in the order issued.\<close>

fun searchFetches :: "action list \<Rightarrow> request list" where
  "searchFetches [] = []"
| "searchFetches (AxiosGet (NearbySearchGet lt lg rad kw) w # as) =
     NearbySearchGet lt lg rad kw # searchFetches as"
| "searchFetches (a # as) = searchFetches as"


section \<open>Example inputs\<close>

text \<open>
  A session of the screen, used for the concrete instances below. Mounted without a
  navigation keyword the screen asks for the location (\<open>mounted\<close>); located at \<open>here\<close>
  it searches with the default query (\<open>located\<close>); the search resolves with two places
  (\<open>listed\<close>); the user opens the search dialog and types a draft (\<open>typed\<close>), or
  clears the search (\<open>refetching\<close>), whose search resolves with one place while the
  details of the first two are still under way (\<open>relisted\<close>). A details response with a
  long review (\<open>detailed\<close>) and a tap on the marker (\<open>pressed\<close>) open the detail modal.
  Mounted with the navigation keyword \<open>glass\<close> the screen takes it over (\<open>scanned\<close>); a
  Clear resets the keywords (\<open>cleared\<close>). The lemma \<open>examples_reachable\<close> below runs
  these events.
\<close>

definition here :: Region where
  "here = \<lparr> latitude = 1, longitude = 2, latitudeDelta = 0.1, longitudeDelta = 0.1 \<rparr>"

definition depot :: Place where
  "depot = \<lparr> place_id = ascii ''p1'', place_name = ascii ''Depot'', lat = 3, lng = 4,
             vicinity = Some (ascii ''Main St'') \<rparr>"

definition yard :: Place where
  "yard = \<lparr> place_id = ascii ''p2'', place_name = ascii ''Yard'', lat = 5, lng = 6,
            vicinity = None \<rparr>"

definition kiosk :: Place where
  "kiosk = \<lparr> place_id = ascii ''p3'', place_name = ascii ''Kiosk'', lat = 7, lng = 8,
             vicinity = Some [] \<rparr>"

definition depotDetails :: PlaceDetails where
  "depotDetails =
     \<lparr> opening_hours = Some \<lparr> open_now = True, weekday_text = [ascii ''Monday: 9-5''] \<rparr>,
       details_rating = Some 4,
       reviews = Some [ascii ''Friendly staff'', ascii ''Too far''] \<rparr>"

definition mounted :: state where
  "mounted = (initial [])\<lparr> locationPending := True \<rparr>"

definition located :: state where
  "located =
     mounted\<lparr> locationPending := False, region := Some here,
              inflight := [(NearbySearchGet 1 2 80467 defaultKeyword, NotAwaited)] \<rparr>"

definition listed :: state where
  "listed =
     located\<lparr> recyclingCenters := [toRecyclingCenter depot, toRecyclingCenter yard],
              loading := False,
              inflight := [(PlaceDetailsGet (ascii ''p1''), NotAwaited),
                           (PlaceDetailsGet (ascii ''p2''), NotAwaited)] \<rparr>"

definition typed :: "jsstring \<Rightarrow> state" where
  "typed text = listed\<lparr> searchModalVisible := True, searchKeyword := text \<rparr>"

definition glass :: jsstring where
  "glass = ascii ''glass''"

definition scanned :: state where
  "scanned =
     (initial glass)\<lparr> searchKeyword := glass, currentSearchKeyword := glass,
                       isInitialRender := False, locationPending := True \<rparr>"

definition cleared :: state where
  "cleared = scanned\<lparr> searchKeyword := [], currentSearchKeyword := [], prevItemName := [] \<rparr>"

definition refetching :: state where
  "refetching =
     listed\<lparr> loading := True,
             inflight := inflight listed
               @ [(NearbySearchGet 1 2 80467 defaultKeyword, NotAwaited)] \<rparr>"

definition relisted :: state where
  "relisted =
     refetching\<lparr> recyclingCenters := [toRecyclingCenter kiosk], loading := False,
                 inflight := [(PlaceDetailsGet (ascii ''p1''), NotAwaited),
                              (PlaceDetailsGet (ascii ''p2''), NotAwaited),
                              (PlaceDetailsGet (ascii ''p3''), NotAwaited)] \<rparr>"

definition longDescription :: jsstring where
  "longDescription = ascii ''a b c d e f g h i j k l m n o p q r s t u v''"

definition wordyDetails :: PlaceDetails where
  "wordyDetails =
     \<lparr> opening_hours = None, details_rating = Some 4, reviews = Some [longDescription] \<rparr>"

definition wordyDepot :: RecyclingCenter where
  "wordyDepot =
     (toRecyclingCenter depot)\<lparr> rating := Some 4, description := Some longDescription \<rparr>"

definition detailed :: state where
  "detailed =
     listed\<lparr> recyclingCenters := [wordyDepot, toRecyclingCenter yard],
             inflight := [(PlaceDetailsGet (ascii ''p2''), NotAwaited)] \<rparr>"

definition pressed :: state where
  "pressed = detailed\<lparr> selectedCenter := Some wordyDepot, modalVisible := True \<rparr>"

section \<open>Auxiliary facts\<close>

lemma exec_all_append: "exec_all (as @ bs) s = exec_all bs (exec_all as s)"
  by (induction as arbitrary: s) simp_all

lemma trim_whitespace_only:
  assumes "\<forall>c \<in> set s. isWhiteSpace c"
  shows "trim s = []"
proof -
  have front: "dropWhile isWhiteSpace s = []"
    using assms by (induction s) simp_all
  show ?thesis
    by (simp only: trim_def front rev.simps dropWhile.simps)
qed

lemma trim_core:
  assumes pre: "\<forall>c \<in> set pre. isWhiteSpace c"
    and post: "\<forall>c \<in> set post. isWhiteSpace c"
    and K: "K \<noteq> []" "\<not> isWhiteSpace (hd K)" "\<not> isWhiteSpace (last K)"
  shows "trim (pre @ K @ post) = K"
proof -
  have "dropWhile isWhiteSpace (pre @ K @ post) = dropWhile isWhiteSpace (K @ post)"
    using pre by (simp add: dropWhile_append2)
  also have "\<dots> = K @ post"
    using K by (cases K) simp_all
  finally have front: "dropWhile isWhiteSpace (pre @ K @ post) = K @ post" .
  have "dropWhile isWhiteSpace (rev post @ rev K) = dropWhile isWhiteSpace (rev K)"
    by (rule dropWhile_append2) (use post in simp)
  also have "\<dots> = rev K"
    using K by (cases "rev K") (simp_all add: hd_rev)
  finally show ?thesis
    by (simp add: trim_def front)
qed

lemma split_not_Nil: "split sep s \<noteq> []"
  by (induction s) (auto split: list.splits)

lemma join_split: "join sep (split sep s) = s"
proof (induction s)
  case Nil
  show ?case by simp
next
  case (Cons c cs)
  show ?case
  proof (cases "c = sep")
    case True
    with Cons show ?thesis
      by (cases "split sep cs") (simp_all add: split_not_Nil)
  next
    case False
    obtain w ws where sp: "split sep cs = w # ws"
      using split_not_Nil [of sep cs] by (cases "split sep cs") auto
    with Cons False show ?thesis by (cases ws) auto
  qed
qed

lemma split_word: "sep \<notin> set w \<Longrightarrow> split sep w = [w]"
  by (induction w) auto

lemma split_word_sep:
  "sep \<notin> set w \<Longrightarrow> split sep (w @ sep # rest) = w # split sep rest"
  by (induction w) auto

lemma split_join:
  "ws \<noteq> [] \<Longrightarrow> \<forall>w \<in> set ws. sep \<notin> set w \<Longrightarrow> split sep (join sep ws) = ws"
  by (induction sep ws rule: join.induct) (simp_all add: split_word split_word_sep)

lemma exec_all_fetchPlaceDetails:
  "exec_all (concat (map (\<lambda>x. fetchPlaceDetails (f x)) xs)) s =
     s\<lparr>inflight := inflight s @ map (\<lambda>x. (PlaceDetailsGet (f x), NotAwaited)) xs\<rparr>"
  by (induction xs arbitrary: s) (simp_all add: fetchPlaceDetails_def)

lemma run_effects_quiet:
  "itemName s1 = itemName s \<Longrightarrow> region s1 = region s \<Longrightarrow>
   currentSearchKeyword s1 = currentSearchKeyword s \<Longrightarrow> run_effects (Some s) s1 = []"
  by (simp add: run_effects_def changed_def)

lemma rerender_quiet:
  "itemName s1 = itemName s \<Longrightarrow> region s1 = region s \<Longrightarrow>
   currentSearchKeyword s1 = currentSearchKeyword s \<Longrightarrow>
   rerender (Suc n) (Some s) s1 = Some (s1, [])"
  by (simp add: run_effects_quiet)

lemma merge_absent:
  "X \<notin> center_id ` set cs \<Longrightarrow> mergePlaceDetails X d cs = cs"
  unfolding mergePlaceDetails_def by (rule map_idI) auto

lemma merge_length: "length (mergePlaceDetails X d cs) = length cs"
  by (simp add: mergePlaceDetails_def)

lemma merge_nth:
  "j < length cs \<Longrightarrow>
   mergePlaceDetails X d cs ! j =
     (if center_id (cs ! j) = X
      then (cs ! j)\<lparr> openingHours := opening_hours d, rating := details_rating d,
                      description := Some (js_or (Some (topReview d))
                                             (ascii ''No reviews available.'')) \<rparr>
      else cs ! j)"
  by (simp add: mergePlaceDetails_def)

lemma step_details_settled:
  assumes "i < length (inflight s)" "inflight s ! i = (PlaceDetailsGet X, w)"
  shows "step (DetailsSettled i resp) s =
     Some (exec_all (fetchPlaceDetails_settled X resp) (s\<lparr>inflight := remove_nth i (inflight s)\<rparr>),
           fetchPlaceDetails_settled X resp)"
proof (cases resp)
  case (Resolved d)
  with assms show ?thesis
    by (simp add: step_def fetchPlaceDetails_settled_def run_effects_quiet numeral_3_eq_3)
next
  case Rejected
  with assms show ?thesis
    by (simp add: step_def fetchPlaceDetails_settled_def run_effects_quiet numeral_3_eq_3)
qed

lemma exec_all_settled:
  "exec_all (fetchRecyclingCenters_settled resp) s =
     (case resp of
        Resolved results \<Rightarrow>
          s\<lparr> recyclingCenters := map toRecyclingCenter results,
             inflight := inflight s
               @ map (\<lambda>p. (PlaceDetailsGet (place_id p), NotAwaited)) results,
             loading := False \<rparr>
      | Rejected \<Rightarrow> s\<lparr>loading := False\<rparr>)"
  by (cases resp)
     (simp_all add: fetchRecyclingCenters_settled_def exec_all_append
        exec_all_fetchPlaceDetails toRecyclingCenter_def o_def)

lemma step_nearby_settled:
  assumes "i < length (inflight s)" "inflight s ! i = (NearbySearchGet lt lg rad kw, w)"
  shows "step (NearbySettled i resp) s =
     Some (exec_all (fetchRecyclingCenters_settled resp)
             (s\<lparr>inflight := remove_nth i (inflight s)\<rparr>)
             \<lparr>isInitialRender := isInitialRender s \<and> w = NotAwaited\<rparr>,
           fetchRecyclingCenters_settled resp
           @ (case w of AwaitedByHandleItemNameChange \<Rightarrow> [ClearInitialRender]
              | NotAwaited \<Rightarrow> []))"
  using assms
  by (cases resp; cases w)
     (simp_all add: step_def exec_all_append exec_all_settled run_effects_quiet numeral_3_eq_3)


lemma searchEffect_keeps:
  "itemName (exec_all (searchEffect s) s) = itemName s
   \<and> region (exec_all (searchEffect s) s) = region s
   \<and> currentSearchKeyword (exec_all (searchEffect s) s) = currentSearchKeyword s
   \<and> searchKeyword (exec_all (searchEffect s) s) = searchKeyword s
   \<and> prevItemName (exec_all (searchEffect s) s) = prevItemName s"
  by (simp add: searchEffect_def fetchRecyclingCenters_def split: option.splits)

lemma run_effects_keeps:
  "itemName (exec_all (run_effects prev cur) cur) = itemName cur
   \<and> region (exec_all (run_effects prev cur) cur) = region cur"
  by (simp add: run_effects_def handleItemNameChange_def searchEffect_def itemNameEffect_def
        fetchLocationAndCenters_def fetchRecyclingCenters_def split: option.splits)

lemma rerender_second:
  assumes "itemName s1 = itemName s0" "region s1 = region s0"
  shows "\<exists>s2 tr. rerender (Suc (Suc n)) (Some s0) s1 = Some (s2, tr)
     \<and> searchKeyword s2 = searchKeyword s1
     \<and> currentSearchKeyword s2 = currentSearchKeyword s1
     \<and> prevItemName s2 = prevItemName s1"
proof (cases "currentSearchKeyword s1 = currentSearchKeyword s0")
  case True
  with assms show ?thesis by (simp add: run_effects_quiet)
next
  case False
  with assms have acts: "run_effects (Some s0) s1 = searchEffect s1"
    by (simp add: run_effects_def changed_def)
  show ?thesis
  proof (cases "searchEffect s1 = []")
    case True
    with acts show ?thesis by simp
  next
    case False
    have quiet: "rerender (Suc n) (Some s1) (exec_all (searchEffect s1) s1) =
            Some (exec_all (searchEffect s1) s1, [])"
      by (rule rerender_quiet) (simp_all add: searchEffect_keeps)
    have "rerender (Suc (Suc n)) (Some s0) s1 =
            (case rerender (Suc n) (Some s1) (exec_all (searchEffect s1) s1) of
               None \<Rightarrow> None
             | Some (s, tr) \<Rightarrow> Some (s, searchEffect s1 @ tr))"
      using acts False
      by (subst rerender.simps(2)) (simp add: Let_def del: rerender.simps)
    also have "\<dots> = Some (exec_all (searchEffect s1) s1, searchEffect s1)"
      by (simp only: quiet option.case prod.case append_Nil2)
    finally show ?thesis
      by (simp add: searchEffect_keeps del: rerender.simps)
  qed
qed

lemma rerender_first:
  "\<exists>s2 tr. rerender (Suc (Suc (Suc n))) prev cur = Some (s2, tr)
     \<and> searchKeyword s2 = searchKeyword (exec_all (run_effects prev cur) cur)
     \<and> currentSearchKeyword s2 = currentSearchKeyword (exec_all (run_effects prev cur) cur)
     \<and> prevItemName s2 = prevItemName (exec_all (run_effects prev cur) cur)"
proof (cases "run_effects prev cur = []")
  case True
  then show ?thesis by simp
next
  case False
  obtain s2 tr where
    "rerender (Suc (Suc n)) (Some cur) (exec_all (run_effects prev cur) cur) = Some (s2, tr)"
    "searchKeyword s2 = searchKeyword (exec_all (run_effects prev cur) cur)"
    "currentSearchKeyword s2 = currentSearchKeyword (exec_all (run_effects prev cur) cur)"
    "prevItemName s2 = prevItemName (exec_all (run_effects prev cur) cur)"
    using rerender_second [of "exec_all (run_effects prev cur) cur" cur n]
    by (auto simp add: run_effects_keeps simp del: rerender.simps)
  with False show ?thesis
    by (subst rerender.simps(2)) (simp add: Let_def del: rerender.simps)
qed

lemma step_returns: "\<exists>s' tr. step e s = Some (s', tr)"
proof -
  obtain s0 acts where d: "dispatch e s = (s0, acts)" by (cases "dispatch e s")
  obtain s2 tr where "rerender 3 (Some s) (exec_all acts s0) = Some (s2, tr)"
    using rerender_first [of 0 "Some s" "exec_all acts s0"] by (auto simp add: numeral_3_eq_3)
  with d show ?thesis by (simp add: step_def)
qed

lemma mount_returns: "\<exists>s' tr. mount name = Some (s', tr)"
  using rerender_first [of 0 None "initial name"] by (auto simp add: mount_def numeral_3_eq_3)

section \<open>The example inputs are reachable\<close>

lemmas example_defs =
  here_def depot_def yard_def kiosk_def depotDetails_def mounted_def located_def listed_def
  typed_def glass_def scanned_def cleared_def refetching_def relisted_def wordyDetails_def
  wordyDepot_def detailed_def pressed_def initial_def toRecyclingCenter_def

lemmas code_defs =
  step_def mount_def numeral_3_eq_3 run_effects_def changed_def handleItemNameChange_def
  fetchLocationAndCenters_def fetchLocationAndCenters_located_def
  fetchLocationAndCenters_denied_def searchEffect_def itemNameEffect_def handleSearch_def
  clearSearch_def handleCloseSearchModal_def handleMarkerPress_def toggleDescription_def
  fetchRecyclingCenters_def fetchRecyclingCenters_settled_def fetchPlaceDetails_def
  fetchPlaceDetails_settled_def mergePlaceDetails_def topReview_def js_or_def

lemma searchQuery_empty: "searchQuery [] = defaultKeyword"
  by (simp add: searchQuery_def trim_def)

lemma searchQuery_glass: "searchQuery (ascii ''glass'') = ascii ''glass recycling''"
  by (simp add: searchQuery_def trim_def ascii_def isWhiteSpace_def)

lemma examples_reachable:
  "mount [] = Some (mounted, [RequestLocation])
   \<and> step (LocationAcquired 1 2) mounted =
       Some (located, SetRegion here # fetchRecyclingCenters 1 2 [] NotAwaited)
   \<and> step (NearbySettled 0 (Resolved [depot, yard])) located =
       Some (listed, fetchRecyclingCenters_settled (Resolved [depot, yard]))
   \<and> step PressClear listed = Some (refetching, clearSearch listed)
   \<and> step PressSearchIcon listed =
       Some (listed\<lparr>searchModalVisible := True\<rparr>, [SetSearchModalVisible True])
   \<and> step (ChangeText glass) (listed\<lparr>searchModalVisible := True\<rparr>) =
       Some (typed glass, [SetSearchKeyword glass])
   \<and> step (NearbySettled 2 (Resolved [kiosk])) refetching =
       Some (relisted, fetchRecyclingCenters_settled (Resolved [kiosk]))
   \<and> step (DetailsSettled 0 (Resolved wordyDetails)) listed =
       Some (detailed, fetchPlaceDetails_settled (ascii ''p1'') (Resolved wordyDetails))
   \<and> step (PressMarker wordyDepot) detailed = Some (pressed, handleMarkerPress wordyDepot)
   \<and> mount glass =
       Some (scanned, [ConsoleLog, SetSearchKeyword glass, SetCurrentSearchKeyword glass,
                       SetPrevItemName glass, ClearInitialRender, RequestLocation])
   \<and> step PressClear scanned = Some (cleared, clearSearch scanned)"
proof (intro conjI)
  show "mount [] = Some (mounted, [RequestLocation])"
    by (simp add: code_defs example_defs)
  show "step (LocationAcquired 1 2) mounted =
       Some (located, SetRegion here # fetchRecyclingCenters 1 2 [] NotAwaited)"
    by (simp add: code_defs example_defs searchQuery_empty)
  show "step (NearbySettled 0 (Resolved [depot, yard])) located =
       Some (listed, fetchRecyclingCenters_settled (Resolved [depot, yard]))"
    by (simp add: code_defs example_defs)
  show "step PressClear listed = Some (refetching, clearSearch listed)"
    by (simp add: code_defs example_defs searchQuery_empty)
  show "step PressSearchIcon listed =
       Some (listed\<lparr>searchModalVisible := True\<rparr>, [SetSearchModalVisible True])"
    by (simp add: code_defs)
  show "step (ChangeText glass) (listed\<lparr>searchModalVisible := True\<rparr>) =
       Some (typed glass, [SetSearchKeyword glass])"
    by (simp add: code_defs typed_def)
  show "step (NearbySettled 2 (Resolved [kiosk])) refetching =
       Some (relisted, fetchRecyclingCenters_settled (Resolved [kiosk]))"
    by (simp add: code_defs example_defs)
  show "step (DetailsSettled 0 (Resolved wordyDetails)) listed =
       Some (detailed, fetchPlaceDetails_settled (ascii ''p1'') (Resolved wordyDetails))"
    by (simp add: code_defs example_defs longDescription_def ascii_def)
  show "step (PressMarker wordyDepot) detailed = Some (pressed, handleMarkerPress wordyDepot)"
    by (simp add: code_defs example_defs)
  show "mount glass =
       Some (scanned, [ConsoleLog, SetSearchKeyword glass, SetCurrentSearchKeyword glass,
                       SetPrevItemName glass, ClearInitialRender, RequestLocation])"
    by (simp add: code_defs example_defs ascii_def)
  show "step PressClear scanned = Some (cleared, clearSearch scanned)"
    by (simp add: code_defs example_defs)
qed



section \<open>Submitting the search dialog\<close>

text \<open>
  Claim C1, as amended. When the user submits the search dialog with draft keyword \<open>D\<close>
  while a region is set, the committed keyword becomes \<open>D\<close>, the dialog closes, and the
  submit handler issues one search fetch with the region's coordinates and \<open>D\<close>. The render
  that follows runs the effect on the committed keyword and the region: when \<open>D\<close> is
  non-empty and differs from the committed keyword before, it issues the same fetch a
  second time. So one fetch is issued when \<open>D\<close> is empty or already committed, two
  otherwise.
\<close>

theorem submit_with_region:
  "region s = Some r \<longrightarrow>
     (\<exists>s' tr. step PressSearch s = Some (s', tr)
        \<and> currentSearchKeyword s' = searchKeyword s
        \<and> \<not> searchModalVisible s'
        \<and> searchFetches (handleSearch s) =
            [NearbySearchGet (latitude r) (longitude r) 80467 (searchQuery (searchKeyword s))]
        \<and> searchFetches tr =
            (if searchKeyword s \<noteq> [] \<and> searchKeyword s \<noteq> currentSearchKeyword s
             then [NearbySearchGet (latitude r) (longitude r) 80467 (searchQuery (searchKeyword s)),
                   NearbySearchGet (latitude r) (longitude r) 80467 (searchQuery (searchKeyword s))]
             else [NearbySearchGet (latitude r) (longitude r) 80467 (searchQuery (searchKeyword s))]))"
  by (auto simp add: step_def handleSearch_def fetchRecyclingCenters_def run_effects_def
        changed_def searchEffect_def numeral_3_eq_3 handleItemNameChange_def itemNameEffect_def)

theorem submit_with_region_witness:
  "region (typed []) = Some here
   \<and> (\<exists>s' tr. step PressSearch (typed []) = Some (s', tr)
        \<and> currentSearchKeyword s' = []
        \<and> \<not> searchModalVisible s'
        \<and> searchFetches tr = [NearbySearchGet 1 2 80467 defaultKeyword])"
proof -
  have h: "region (typed []) = Some here"
    by (simp add: example_defs)
  have k: "searchKeyword (typed []) = []" "latitude here = 1" "longitude here = 2"
    by (simp_all add: example_defs)
  show ?thesis
    using h submit_with_region [of "typed []" here, THEN mp, OF h]
    by (auto simp add: k searchQuery_empty)
qed

text \<open>
  Claim C1 as stated (exactly one fetch) fails: with the region set, nothing committed
  and the draft \<open>glass\<close>, submitting issues the search for \<open>glass recycling\<close> twice.
\<close>

theorem submit_fetches_twice:
  "region (typed glass) = Some here
   \<and> searchKeyword (typed glass) = glass
   \<and> map_option (searchFetches \<circ> snd) (step PressSearch (typed glass)) =
       Some [NearbySearchGet 1 2 80467 (ascii ''glass recycling''),
             NearbySearchGet 1 2 80467 (ascii ''glass recycling'')]"
  by (simp add: code_defs example_defs searchQuery_glass) (simp add: ascii_def)

text \<open>
  Claim C10. When no region is set, submitting the search dialog closes the dialog and
  does nothing else: the committed keyword, the center list and the loading flag stay as
  they are and no fetch is issued.
\<close>

theorem submit_without_region:
  "region s = None \<longrightarrow>
     step PressSearch s = Some (s\<lparr>searchModalVisible := False\<rparr>, [SetSearchModalVisible False])"
  by (simp add: step_def handleSearch_def run_effects_quiet numeral_3_eq_3)

theorem submit_without_region_witness:
  "region (mounted\<lparr>searchModalVisible := True, searchKeyword := glass\<rparr>) = None
   \<and> step PressSearch (mounted\<lparr>searchModalVisible := True, searchKeyword := glass\<rparr>) =
       Some (mounted\<lparr>searchKeyword := glass\<rparr>, [SetSearchModalVisible False])"
proof -
  have h: "region (mounted\<lparr>searchModalVisible := True, searchKeyword := glass\<rparr>) = None"
    by (simp add: example_defs)
  show ?thesis
    using h submit_without_region
      [of "mounted\<lparr>searchModalVisible := True, searchKeyword := glass\<rparr>", THEN mp, OF h]
    by (simp add: example_defs)
qed

section \<open>Closing the search dialog\<close>

text \<open>
  Claim C9. The guard of the close handler compares the draft with the empty string and
  does not trim it: with a non-empty draft, whitespace only included, closing the dialog
  does not clear the search. Draft, committed and external keyword and the center list
  stay as they are; the dialog's visibility is all that changes.
\<close>

theorem close_with_draft:
  "searchKeyword s \<noteq> [] \<longrightarrow>
     step PressClose s = Some (s\<lparr>searchModalVisible := False\<rparr>, [SetSearchModalVisible False])"
  by (simp add: step_def handleCloseSearchModal_def run_effects_quiet numeral_3_eq_3)

theorem close_with_draft_witness:
  "searchKeyword (typed (ascii ''  '')) \<noteq> []
   \<and> trim (searchKeyword (typed (ascii ''  ''))) = []
   \<and> step PressClose (typed (ascii ''  '')) =
       Some (listed\<lparr>searchKeyword := ascii ''  ''\<rparr>, [SetSearchModalVisible False])"
proof -
  have h: "searchKeyword (typed (ascii ''  '')) \<noteq> []"
    by (simp add: example_defs ascii_def)
  show ?thesis
    using h close_with_draft [of "typed (ascii ''  '')", THEN mp, OF h]
    by (simp add: example_defs ascii_def trim_def isWhiteSpace_def)
qed

section \<open>The navigation keyword\<close>

text \<open>
  Claim C2, as amended. A non-empty navigation keyword that differs from the route
  parameter of the last render is copied into the draft and the committed keyword and
  recorded as last seen, whenever it differs from the last-seen external keyword or the
  first-render mark is still set; so is a non-empty keyword present at the first render.
  An empty navigation keyword is ignored.
\<close>

theorem navigation_keyword:
  "(name \<noteq> [] \<and> name \<noteq> itemName s \<and> (name \<noteq> prevItemName s \<or> isInitialRender s) \<longrightarrow>
      (\<exists>s' tr. step (Navigate name) s = Some (s', tr)
         \<and> searchKeyword s' = name \<and> currentSearchKeyword s' = name
         \<and> prevItemName s' = name))
   \<and> (name \<noteq> [] \<longrightarrow>
      (\<exists>s' tr. mount name = Some (s', tr)
         \<and> searchKeyword s' = name \<and> currentSearchKeyword s' = name
         \<and> prevItemName s' = name))
   \<and> step (Navigate []) s = Some (s\<lparr>itemName := []\<rparr>, [])"
proof (intro conjI impI)
  assume a: "name \<noteq> [] \<and> name \<noteq> itemName s \<and> (name \<noteq> prevItemName s \<or> isInitialRender s)"
  define s1 where "s1 = exec_all (run_effects (Some s) (s\<lparr>itemName := name\<rparr>)) (s\<lparr>itemName := name\<rparr>)"
  have s1: "searchKeyword s1 = name \<and> currentSearchKeyword s1 = name \<and> prevItemName s1 = name"
    using a
    by (auto simp add: s1_def run_effects_def changed_def handleItemNameChange_def
          itemNameEffect_def fetchRecyclingCenters_def split: option.splits)
  obtain s2 tr where "rerender 3 (Some s) (s\<lparr>itemName := name\<rparr>) = Some (s2, tr)"
    "searchKeyword s2 = searchKeyword s1" "currentSearchKeyword s2 = currentSearchKeyword s1"
    "prevItemName s2 = prevItemName s1"
    using rerender_first [of 0 "Some s" "s\<lparr>itemName := name\<rparr>"]
    by (auto simp add: numeral_3_eq_3 s1_def)
  with s1 show "\<exists>s' tr. step (Navigate name) s = Some (s', tr)
         \<and> searchKeyword s' = name \<and> currentSearchKeyword s' = name
         \<and> prevItemName s' = name"
    by (simp add: step_def)
next
  assume a: "name \<noteq> []"
  define s1 where "s1 = exec_all (run_effects None (initial name)) (initial name)"
  have s1: "searchKeyword s1 = name \<and> currentSearchKeyword s1 = name \<and> prevItemName s1 = name"
    using a
    by (simp add: s1_def run_effects_def changed_def handleItemNameChange_def
          itemNameEffect_def searchEffect_def fetchLocationAndCenters_def initial_def)
  obtain s2 tr where "rerender 3 None (initial name) = Some (s2, tr)"
    "searchKeyword s2 = searchKeyword s1" "currentSearchKeyword s2 = currentSearchKeyword s1"
    "prevItemName s2 = prevItemName s1"
    using rerender_first [of 0 None "initial name"]
    by (auto simp add: numeral_3_eq_3 s1_def)
  with s1 show "\<exists>s' tr. mount name = Some (s', tr)
         \<and> searchKeyword s' = name \<and> currentSearchKeyword s' = name
         \<and> prevItemName s' = name"
    by (simp add: mount_def)
next
  show "step (Navigate []) s = Some (s\<lparr>itemName := []\<rparr>, [])"
    by (simp add: step_def numeral_3_eq_3 run_effects_def changed_def handleItemNameChange_def
          itemNameEffect_def)
qed

theorem navigation_keyword_witness:
  "glass \<noteq> [] \<and> glass \<noteq> itemName listed \<and> glass \<noteq> prevItemName listed
   \<and> (\<exists>s' tr. step (Navigate glass) listed = Some (s', tr)
        \<and> searchKeyword s' = glass \<and> currentSearchKeyword s' = glass
        \<and> prevItemName s' = glass)
   \<and> (\<exists>s' tr. mount glass = Some (s', tr)
        \<and> searchKeyword s' = glass \<and> currentSearchKeyword s' = glass
        \<and> prevItemName s' = glass)"
proof -
  have g: "glass \<noteq> []"
    by (simp add: glass_def ascii_def)
  have h: "glass \<noteq> [] \<and> glass \<noteq> itemName listed
           \<and> (glass \<noteq> prevItemName listed \<or> isInitialRender listed)"
    by (simp add: example_defs ascii_def)
  show ?thesis
    using h navigation_keyword [of glass listed, THEN conjunct1, THEN mp, OF h]
      navigation_keyword [of glass listed, THEN conjunct2, THEN conjunct1, THEN mp, OF g]
    by (simp add: example_defs)
qed

text \<open>
  Claim C2 as stated fails twice. After \<open>glass\<close> has been taken over, an empty
  navigation keyword differs from the last-seen \<open>glass\<close> and changes none of the three
  keywords. After a Clear has reset the last-seen keyword to the empty string, the
  navigation keyword \<open>glass\<close> arriving again (the route parameter is still \<open>glass\<close>)
  differs from the last-seen keyword and is not taken over.
\<close>

theorem navigation_keyword_ignored:
  "[] \<noteq> prevItemName scanned
   \<and> map_option fst (step (Navigate []) scanned) = Some (scanned\<lparr>itemName := []\<rparr>)
   \<and> prevItemName (scanned\<lparr>itemName := []\<rparr>) = glass
   \<and> searchKeyword (scanned\<lparr>itemName := []\<rparr>) = glass
   \<and> currentSearchKeyword (scanned\<lparr>itemName := []\<rparr>) = glass
   \<and> glass \<noteq> prevItemName cleared
   \<and> step (Navigate glass) cleared = Some (cleared, [])
   \<and> searchKeyword cleared = [] \<and> currentSearchKeyword cleared = []
   \<and> prevItemName cleared = []"
  by (simp add: code_defs example_defs ascii_def)

section \<open>Merging a details response\<close>

text \<open>
  Claim C3. When the details call for identifier \<open>X\<close> resolves: if the list has no
  entry with identifier \<open>X\<close>, the list stays as it is; the list keeps its length and
  order; an entry with another identifier is unchanged; an entry with identifier \<open>X\<close>
  keeps identifier, name, coordinates and address, and its opening hours, rating and
  description are those of the response.
\<close>

theorem details_merge:
  "i < length (inflight s) \<and> inflight s ! i = (PlaceDetailsGet X, w) \<longrightarrow>
     (\<exists>s' tr. step (DetailsSettled i (Resolved d)) s = Some (s', tr)
        \<and> (X \<notin> center_id ` set (recyclingCenters s) \<longrightarrow>
             recyclingCenters s' = recyclingCenters s)
        \<and> length (recyclingCenters s') = length (recyclingCenters s)
        \<and> (\<forall>j < length (recyclingCenters s).
              (center_id (recyclingCenters s ! j) \<noteq> X \<longrightarrow>
                 recyclingCenters s' ! j = recyclingCenters s ! j)
            \<and> (center_id (recyclingCenters s ! j) = X \<longrightarrow>
                 center_id (recyclingCenters s' ! j) = X
               \<and> center_name (recyclingCenters s' ! j) = center_name (recyclingCenters s ! j)
               \<and> center_latitude (recyclingCenters s' ! j) =
                   center_latitude (recyclingCenters s ! j)
               \<and> center_longitude (recyclingCenters s' ! j) =
                   center_longitude (recyclingCenters s ! j)
               \<and> address (recyclingCenters s' ! j) = address (recyclingCenters s ! j)
               \<and> openingHours (recyclingCenters s' ! j) = opening_hours d
               \<and> rating (recyclingCenters s' ! j) = details_rating d
               \<and> description (recyclingCenters s' ! j) =
                   Some (js_or (Some (topReview d)) (ascii ''No reviews available.'')))))"
proof (intro impI)
  assume a: "i < length (inflight s) \<and> inflight s ! i = (PlaceDetailsGet X, w)"
  define s' where
    "s' = exec_all (fetchPlaceDetails_settled X (Resolved d))
            (s\<lparr>inflight := remove_nth i (inflight s)\<rparr>)"
  have st: "step (DetailsSettled i (Resolved d)) s =
              Some (s', fetchPlaceDetails_settled X (Resolved d))"
    using a by (simp add: step_details_settled s'_def)
  have cs: "recyclingCenters s' = mergePlaceDetails X d (recyclingCenters s)"
    by (simp add: s'_def fetchPlaceDetails_settled_def)
  show "\<exists>s' tr. step (DetailsSettled i (Resolved d)) s = Some (s', tr)
        \<and> (X \<notin> center_id ` set (recyclingCenters s) \<longrightarrow>
             recyclingCenters s' = recyclingCenters s)
        \<and> length (recyclingCenters s') = length (recyclingCenters s)
        \<and> (\<forall>j < length (recyclingCenters s).
              (center_id (recyclingCenters s ! j) \<noteq> X \<longrightarrow>
                 recyclingCenters s' ! j = recyclingCenters s ! j)
            \<and> (center_id (recyclingCenters s ! j) = X \<longrightarrow>
                 center_id (recyclingCenters s' ! j) = X
               \<and> center_name (recyclingCenters s' ! j) = center_name (recyclingCenters s ! j)
               \<and> center_latitude (recyclingCenters s' ! j) =
                   center_latitude (recyclingCenters s ! j)
               \<and> center_longitude (recyclingCenters s' ! j) =
                   center_longitude (recyclingCenters s ! j)
               \<and> address (recyclingCenters s' ! j) = address (recyclingCenters s ! j)
               \<and> openingHours (recyclingCenters s' ! j) = opening_hours d
               \<and> rating (recyclingCenters s' ! j) = details_rating d
               \<and> description (recyclingCenters s' ! j) =
                   Some (js_or (Some (topReview d)) (ascii ''No reviews available.''))))"
    using st by (simp add: cs merge_absent merge_length merge_nth)
qed

theorem details_merge_witness:
  "0 < length (inflight listed)
   \<and> inflight listed ! 0 = (PlaceDetailsGet (ascii ''p1''), NotAwaited)
   \<and> (\<exists>s' tr. step (DetailsSettled 0 (Resolved depotDetails)) listed = Some (s', tr)
        \<and> length (recyclingCenters s') = 2
        \<and> recyclingCenters s' ! 1 = toRecyclingCenter yard
        \<and> center_name (recyclingCenters s' ! 0) = ascii ''Depot''
        \<and> address (recyclingCenters s' ! 0) = Some (ascii ''Main St'')
        \<and> rating (recyclingCenters s' ! 0) = Some 4
        \<and> description (recyclingCenters s' ! 0) = Some (ascii ''Friendly staff''))
   \<and> inflight relisted ! 0 = (PlaceDetailsGet (ascii ''p1''), NotAwaited)
   \<and> ascii ''p1'' \<notin> center_id ` set (recyclingCenters relisted)
   \<and> (\<exists>s' tr. step (DetailsSettled 0 (Resolved depotDetails)) relisted = Some (s', tr)
        \<and> recyclingCenters s' = recyclingCenters relisted)"
proof -
  have h: "0 < length (inflight listed)
           \<and> inflight listed ! 0 = (PlaceDetailsGet (ascii ''p1''), NotAwaited)"
    by (simp add: example_defs)
  have k: "0 < length (inflight relisted)
           \<and> inflight relisted ! 0 = (PlaceDetailsGet (ascii ''p1''), NotAwaited)"
    by (simp add: example_defs)
  show ?thesis
    using h k
      details_merge [of 0 listed "ascii ''p1''" NotAwaited depotDetails, THEN mp, OF h]
      details_merge [of 0 relisted "ascii ''p1''" NotAwaited depotDetails, THEN mp, OF k]
    by (simp add: code_defs example_defs ascii_def)
qed

section \<open>The list after a nearby search\<close>

text \<open>
  Claim C5, as amended. When a nearby search resolves with \<open>N\<close> results, the center
  list has \<open>N\<close> entries, their identifiers are the place identifiers in the order of the
  response, each with the name and coordinates of its result, and with the address being
  the result's vicinity, or \<open>Address not available\<close> when the vicinity is absent or the
  empty string.
\<close>

theorem search_results:
  "i < length (inflight s) \<and> inflight s ! i = (NearbySearchGet lt lg rad kw, w) \<longrightarrow>
     (\<exists>s' tr. step (NearbySettled i (Resolved results)) s = Some (s', tr)
        \<and> length (recyclingCenters s') = length results
        \<and> map center_id (recyclingCenters s') = map place_id results
        \<and> (\<forall>j < length results.
              center_name (recyclingCenters s' ! j) = place_name (results ! j)
            \<and> center_latitude (recyclingCenters s' ! j) = lat (results ! j)
            \<and> center_longitude (recyclingCenters s' ! j) = lng (results ! j)
            \<and> address (recyclingCenters s' ! j) =
                Some (case vicinity (results ! j) of
                        None \<Rightarrow> ascii ''Address not available''
                      | Some v \<Rightarrow> if v = [] then ascii ''Address not available'' else v)))"
  by (auto simp add: step_nearby_settled exec_all_settled toRecyclingCenter_def o_def
        js_or_def  split: option.splits)

theorem search_results_witness:
  "0 < length (inflight located)
   \<and> inflight located ! 0 = (NearbySearchGet 1 2 80467 defaultKeyword, NotAwaited)
   \<and> (\<exists>s' tr. step (NearbySettled 0 (Resolved [depot, yard, kiosk])) located = Some (s', tr)
        \<and> map center_id (recyclingCenters s') = [ascii ''p1'', ascii ''p2'', ascii ''p3'']
        \<and> map address (recyclingCenters s') =
            [Some (ascii ''Main St''), Some (ascii ''Address not available''),
             Some (ascii ''Address not available'')])"
proof -
  have h: "0 < length (inflight located)
           \<and> inflight located ! 0 = (NearbySearchGet 1 2 80467 defaultKeyword, NotAwaited)"
    by (simp add: example_defs)
  show ?thesis
    using h
      search_results [of 0 located 1 2 80467 defaultKeyword NotAwaited "[depot, yard, kiosk]",
        THEN mp, OF h]
    by (simp add: code_defs example_defs) (simp add: ascii_def)
qed

text \<open>
  Claim C5 as stated (the placeholder only when the vicinity is absent) fails for a
  result whose vicinity is present and empty: the address is the placeholder, not the
  vicinity.
\<close>

theorem empty_vicinity_replaced:
  "vicinity kiosk = Some []
   \<and> map_option (map address \<circ> recyclingCenters \<circ> fst)
       (step (NearbySettled 0 (Resolved [kiosk])) located) =
       Some [Some (ascii ''Address not available'')]
   \<and> Some (ascii ''Address not available'') \<noteq> vicinity kiosk"
  by (simp add: code_defs example_defs) (simp add: ascii_def)

section \<open>The loading flag\<close>

text \<open>
  Claim C6. A call of \<open>fetchRecyclingCenters\<close> sets the loading flag first. When the
  nearby search settles, resolved or rejected, the flag is cleared; when it is rejected
  the center list keeps its contents and no details call is started; when it resolves
  the flag is cleared while the details calls of its results are still under way. A
  details call that settles leaves the flag as it is.
\<close>

theorem loading_flag:
  "loading (exec_all (fetchRecyclingCenters lt lg keyword w) s)
   \<and> hd (fetchRecyclingCenters lt lg keyword w) = SetLoading True
   \<and> (i < length (inflight s) \<and> inflight s ! i = (NearbySearchGet lt' lg' rad kw, w') \<longrightarrow>
        (\<exists>s' tr. step (NearbySettled i resp) s = Some (s', tr)
           \<and> \<not> loading s'
           \<and> (resp = Rejected \<longrightarrow>
                recyclingCenters s' = recyclingCenters s
              \<and> inflight s' = remove_nth i (inflight s))
           \<and> (\<forall>results. resp = Resolved results \<longrightarrow>
                inflight s' =
                  remove_nth i (inflight s)
                  @ map (\<lambda>p. (PlaceDetailsGet (place_id p), NotAwaited)) results)))
   \<and> (j < length (inflight s) \<and> inflight s ! j = (PlaceDetailsGet X, w'') \<longrightarrow>
        (\<exists>s' tr. step (DetailsSettled j dresp) s = Some (s', tr) \<and> loading s' = loading s))"
proof (intro conjI impI)
  show "loading (exec_all (fetchRecyclingCenters lt lg keyword w) s)"
    by (simp add: fetchRecyclingCenters_def)
  show "hd (fetchRecyclingCenters lt lg keyword w) = SetLoading True"
    by (simp add: fetchRecyclingCenters_def)
next
  assume "i < length (inflight s) \<and> inflight s ! i = (NearbySearchGet lt' lg' rad kw, w')"
  then show "\<exists>s' tr. step (NearbySettled i resp) s = Some (s', tr)
           \<and> \<not> loading s'
           \<and> (resp = Rejected \<longrightarrow>
                recyclingCenters s' = recyclingCenters s
              \<and> inflight s' = remove_nth i (inflight s))
           \<and> (\<forall>results. resp = Resolved results \<longrightarrow>
                inflight s' =
                  remove_nth i (inflight s)
                  @ map (\<lambda>p. (PlaceDetailsGet (place_id p), NotAwaited)) results)"
    by (cases resp) (simp_all add: step_nearby_settled exec_all_settled)
next
  assume "j < length (inflight s) \<and> inflight s ! j = (PlaceDetailsGet X, w'')"
  then show "\<exists>s' tr. step (DetailsSettled j dresp) s = Some (s', tr) \<and> loading s' = loading s"
    by (cases dresp) (simp_all add: step_details_settled fetchPlaceDetails_settled_def)
qed

theorem loading_flag_witness:
  "loading (exec_all (fetchRecyclingCenters 1 2 glass NotAwaited) listed)
   \<and> \<not> loading listed
   \<and> inflight refetching ! 2 = (NearbySearchGet 1 2 80467 defaultKeyword, NotAwaited)
   \<and> inflight refetching ! 0 = (PlaceDetailsGet (ascii ''p1''), NotAwaited)
   \<and> loading refetching
   \<and> (\<exists>s' tr. step (NearbySettled 2 Rejected) refetching = Some (s', tr)
        \<and> \<not> loading s'
        \<and> recyclingCenters s' = recyclingCenters refetching
        \<and> inflight s' = [(PlaceDetailsGet (ascii ''p1''), NotAwaited),
                          (PlaceDetailsGet (ascii ''p2''), NotAwaited)])
   \<and> (\<exists>s' tr. step (DetailsSettled 0 Rejected) refetching = Some (s', tr) \<and> loading s')"
proof -
  have h: "2 < length (inflight refetching)
           \<and> inflight refetching ! 2 = (NearbySearchGet 1 2 80467 defaultKeyword, NotAwaited)"
    by (simp add: example_defs)
  have k: "0 < length (inflight refetching)
           \<and> inflight refetching ! 0 = (PlaceDetailsGet (ascii ''p1''), NotAwaited)"
    by (simp add: example_defs)
  note inst = loading_flag [of 1 2 glass NotAwaited refetching 2 1 2 80467
      defaultKeyword NotAwaited Rejected 0 "ascii ''p1''" NotAwaited Rejected]
  show ?thesis
    using h k loading_flag [of 1 2 glass NotAwaited listed, THEN conjunct1]
      inst [THEN conjunct2, THEN conjunct2, THEN conjunct1, THEN mp, OF h]
      inst [THEN conjunct2, THEN conjunct2, THEN conjunct2, THEN mp, OF k]
    by (simp add: code_defs example_defs)
qed

section \<open>The list replacement and the details calls\<close>




section \<open>The description in the detail modal\<close>

text \<open>
  Claim C8. A description that splits at single spaces into more than 20 pieces is
  shown, collapsed, as its first 20 pieces joined by single spaces and followed by
  \<open>...\<close>, and in full when expanded; for more than 20 words without spaces joined by
  single spaces, these pieces are the words. A tap on the toggle negates the expanded
  flag, once.
\<close>

theorem description_truncation:
  "(selectedCenter s = Some c \<and> description c = Some d \<and> length (split space d) > 20 \<longrightarrow>
      renderedDescription (s\<lparr>isExpanded := False\<rparr>) =
        Some (join space (take 20 (split space d)) @ ascii ''...'')
      \<and> renderedDescription (s\<lparr>isExpanded := True\<rparr>) = Some d)
   \<and> (length ws > 20 \<and> (\<forall>w \<in> set ws. space \<notin> set w) \<longrightarrow>
        descriptionText False (Some (join space ws)) =
          Some (join space (take 20 ws) @ ascii ''...'')
        \<and> descriptionText True (Some (join space ws)) = Some (join space ws))
   \<and> step PressToggle s =
        Some (s\<lparr>isExpanded := \<not> isExpanded s\<rparr>, [SetIsExpanded (\<not> isExpanded s)])"
proof (intro conjI impI)
  assume a: "selectedCenter s = Some c \<and> description c = Some d \<and> length (split space d) > 20"
  then have "d \<noteq> []" by auto
  with a show "renderedDescription (s\<lparr>isExpanded := False\<rparr>) =
        Some (join space (take 20 (split space d)) @ ascii ''...'')"
    by (simp add: renderedDescription_def descriptionText_def)
  from a show "renderedDescription (s\<lparr>isExpanded := True\<rparr>) = Some d"
    by (simp add: renderedDescription_def descriptionText_def)
next
  assume b: "length ws > 20 \<and> (\<forall>w \<in> set ws. space \<notin> set w)"
  then have ne: "ws \<noteq> []" by auto
  with b have sp: "split space (join space ws) = ws"
    by (simp add: split_join)
  have "join space ws \<noteq> []"
  proof
    assume "join space ws = []"
    with sp have "ws = [[]]" by simp
    with b show False by simp
  qed
  with b sp show "descriptionText False (Some (join space ws)) =
          Some (join space (take 20 ws) @ ascii ''...'')"
    by (simp add: descriptionText_def)
  show "descriptionText True (Some (join space ws)) = Some (join space ws)"
    by (simp add: descriptionText_def)
next
  show "step PressToggle s =
        Some (s\<lparr>isExpanded := \<not> isExpanded s\<rparr>, [SetIsExpanded (\<not> isExpanded s)])"
    by (simp add: step_def toggleDescription_def run_effects_quiet numeral_3_eq_3)
qed

theorem description_truncation_witness:
  "selectedCenter pressed = Some wordyDepot
   \<and> description wordyDepot = Some longDescription
   \<and> length (split space longDescription) = 22
   \<and> renderedDescription pressed =
       Some (ascii ''a b c d e f g h i j k l m n o p q r s t...'')
   \<and> renderedDescription (pressed\<lparr>isExpanded := True\<rparr>) = Some longDescription
   \<and> step PressToggle pressed =
       Some (pressed\<lparr>isExpanded := True\<rparr>, [SetIsExpanded True])
   \<and> step PressToggle (pressed\<lparr>isExpanded := True\<rparr>) = Some (pressed, [SetIsExpanded False])"
proof -
  have n: "length (split space longDescription) = 22"
    by (simp add: longDescription_def ascii_def space_def)
  have h: "selectedCenter pressed = Some wordyDepot
           \<and> description wordyDepot = Some longDescription
           \<and> length (split space longDescription) > 20"
    by (simp add: n) (simp add: example_defs)
  have e: "\<not> isExpanded pressed" "pressed\<lparr>isExpanded := False\<rparr> = pressed"
    by (simp_all add: example_defs)
  have t: "join space (take 20 (split space longDescription)) @ ascii ''...'' =
             ascii ''a b c d e f g h i j k l m n o p q r s t...''"
    by (simp add: longDescription_def ascii_def space_def)
  note inst = description_truncation [of pressed wordyDepot longDescription]
  note again = description_truncation [of "pressed\<lparr>isExpanded := True\<rparr>"]
  show ?thesis
    using h n inst [THEN conjunct1, THEN mp, OF h] inst [THEN conjunct2, THEN conjunct2]
      again [THEN conjunct2, THEN conjunct2]
    by (simp add: e t)
qed

section \<open>The effective query\<close>

text \<open>
  Claim C4. For every keyword: when the keyword trims to the empty string (it is empty or
  consists of whitespace only), the query sent to the nearby-search endpoint is the fixed
  default string \<open>recycling center|waste management|recyclable materials|recycle center\<close>;
  when it trims to a non-empty string \<open>K\<close> (whitespace around a \<open>K\<close> that neither starts
  nor ends with whitespace), the query sent is \<open>K\<close> followed by \<open> recycling\<close>.
\<close>

theorem search_query:
  "((\<forall>c \<in> set keyword. isWhiteSpace c) \<longrightarrow>
      fetchRecyclingCenters lt lg keyword w =
        [SetLoading True, ConsoleLog,
         AxiosGet
           (NearbySearchGet lt lg 80467
              (ascii ''recycling center|waste management|recyclable materials|recycle center''))
           w])
   \<and> ((\<forall>c \<in> set pre. isWhiteSpace c) \<and> (\<forall>c \<in> set post. isWhiteSpace c) \<and>
       K \<noteq> [] \<and> \<not> isWhiteSpace (hd K) \<and> \<not> isWhiteSpace (last K) \<longrightarrow>
      fetchRecyclingCenters lt lg (pre @ K @ post) w =
        [SetLoading True, ConsoleLog,
         AxiosGet (NearbySearchGet lt lg 80467 (K @ ascii '' recycling'')) w])
   \<and> searchQuery keyword =
       (if trim keyword = []
        then ascii ''recycling center|waste management|recyclable materials|recycle center''
        else trim keyword @ ascii '' recycling'')"
  by (simp add: fetchRecyclingCenters_def searchQuery_def defaultKeyword_def
        trim_whitespace_only trim_core)

theorem search_query_witness:
  "fetchRecyclingCenters 1 2 (ascii '' '') NotAwaited =
     [SetLoading True, ConsoleLog,
      AxiosGet
        (NearbySearchGet 1 2 80467
           (ascii ''recycling center|waste management|recyclable materials|recycle center''))
        NotAwaited]
   \<and> fetchRecyclingCenters 1 2 (ascii '' glass bottle  '') NotAwaited =
     [SetLoading True, ConsoleLog,
      AxiosGet (NearbySearchGet 1 2 80467 (ascii ''glass bottle recycling'')) NotAwaited]"
proof -
  have blank: "\<forall>c \<in> set (ascii '' ''). isWhiteSpace c"
    by (simp add: ascii_def isWhiteSpace_def)
  have padded: "(\<forall>c \<in> set (ascii '' ''). isWhiteSpace c)
      \<and> (\<forall>c \<in> set (ascii ''  ''). isWhiteSpace c)
      \<and> ascii ''glass bottle'' \<noteq> []
      \<and> \<not> isWhiteSpace (hd (ascii ''glass bottle''))
      \<and> \<not> isWhiteSpace (last (ascii ''glass bottle''))"
    by (simp add: ascii_def isWhiteSpace_def)
  note inst = search_query [of "ascii '' ''" 1 2 NotAwaited "ascii '' ''" "ascii ''  ''"
      "ascii ''glass bottle''"]
  show ?thesis
    using inst [THEN conjunct1, THEN mp, OF blank]
      inst [THEN conjunct2, THEN conjunct1, THEN mp, OF padded]
    by (simp add: ascii_def)
qed

end
